theory Spec2Isabelle
  imports Main
begin

section \<open>Python string primitives used by the kernel\<close>

text \<open>
  Strings are \<open>char list\<close>.  The functions below model the built-in string operations
  that \<^verbatim>\<open>interpreter.py\<close> calls: \<^verbatim>\<open>str.find\<close>, slicing, \<^verbatim>\<open>int(str)\<close>, \<^verbatim>\<open>"%i" % n\<close>,
  \<^verbatim>\<open>str.split(sep, maxsplit)\<close>, \<^verbatim>\<open>sep.join\<close>, \<^verbatim>\<open>str.replace\<close>, \<^verbatim>\<open>sub in s\<close>,
  \<^verbatim>\<open>str.splitlines\<close> and list indexing.  A Python call that raises is modelled by
  \<open>None\<close>.
\<close>

abbreviation NL :: char where "NL \<equiv> CHR 0x0A"

fun find_from :: "char \<Rightarrow> string \<Rightarrow> nat \<Rightarrow> int" where
  "find_from c [] i = - 1"
| "find_from c (x # xs) i = (if x = c then int i else find_from c xs (Suc i))"

definition py_find :: "string \<Rightarrow> char \<Rightarrow> int" where
  \<comment> \<open>\<^verbatim>\<open>s.find(c)\<close>: index of the first occurrence, \<open>-1\<close> when there is none\<close>
  "py_find s c = find_from c s 0"

definition is_space :: "char \<Rightarrow> bool" where
  \<comment> \<open>the white space of a Python 3 \<^verbatim>\<open>str\<close> among the code points below 256\<close>
  "is_space c =
     (c \<in> set [CHR '' '', CHR 0x09, CHR 0x0A, CHR 0x0B, CHR 0x0C, CHR 0x0D,
                CHR 0x1C, CHR 0x1D, CHR 0x1E, CHR 0x1F, CHR 0x85, CHR 0xA0])"

definition is_digit :: "char \<Rightarrow> bool" where
  "is_digit c = (c \<in> set ''0123456789'')"

definition py_strip :: "string \<Rightarrow> string" where
  "py_strip s = rev (dropWhile is_space (rev (dropWhile is_space s)))"

fun grouped_digits :: "string \<Rightarrow> bool" where
  \<comment> \<open>one or more decimal digits, single underscores allowed between digits\<close>
  "grouped_digits [] = False"
| "grouped_digits [c] = is_digit c"
| "grouped_digits (c # d # cs) =
     (is_digit c \<and> grouped_digits (if d = CHR ''_'' then cs else d # cs))"

definition digit_val :: "char \<Rightarrow> nat" where
  "digit_val c = of_char c - 48"

definition dec_value :: "string \<Rightarrow> nat" where
  "dec_value s = foldl (\<lambda>a c. 10 * a + digit_val c) 0 (filter is_digit s)"

definition py_int :: "string \<Rightarrow> int option" where
  \<comment> \<open>\<^verbatim>\<open>int(s)\<close> in base ten, for digits \<^verbatim>\<open>0\<close> to \<^verbatim>\<open>9\<close>; \<open>None\<close> stands for \<^verbatim>\<open>ValueError\<close>.
      Left out: the digits of other scripts, and the refusal of more than 4300 digits
      that Python 3.11 added\<close>
  "py_int s =
     (let t = py_strip s;
          neg = (case t of [] \<Rightarrow> False | c # _ \<Rightarrow> c = CHR ''-'');
          body = (case t of [] \<Rightarrow> []
                  | c # r \<Rightarrow> if c = CHR ''-'' \<or> c = CHR ''+'' then r else t)
      in if grouped_digits body
         then Some (if neg then - int (dec_value body) else int (dec_value body))
         else None)"

definition digit_char :: "nat \<Rightarrow> char" where
  "digit_char d = ''0123456789'' ! d"

fun digits :: "nat \<Rightarrow> string" where
  "digits n = (if n < 10 then [digit_char n] else digits (n div 10) @ [digit_char (n mod 10)])"

declare digits.simps [simp del]

definition str_int :: "int \<Rightarrow> string" where
  \<comment> \<open>\<^verbatim>\<open>"%i" % n\<close>\<close>
  "str_int n = (if n < 0 then CHR ''-'' # digits (nat (- n)) else digits (nat n))"

fun break_nl :: "string \<Rightarrow> (string \<times> string) option" where
  \<comment> \<open>the text before the first newline and the text after it\<close>
  "break_nl [] = None"
| "break_nl (c # cs) =
     (if c = NL then Some ([], cs)
      else (case break_nl cs of None \<Rightarrow> None | Some (a, r) \<Rightarrow> Some (c # a, r)))"

fun split_nl :: "nat \<Rightarrow> string \<Rightarrow> string list" where
  \<comment> \<open>\<^verbatim>\<open>s.split('\n', n)\<close>: at most \<open>n\<close> splits\<close>
  "split_nl 0 s = [s]"
| "split_nl (Suc n) s =
     (case break_nl s of None \<Rightarrow> [s] | Some (a, r) \<Rightarrow> a # split_nl n r)"

definition split_nl_all :: "string \<Rightarrow> string list" where
  \<comment> \<open>\<^verbatim>\<open>s.split('\n')\<close>: a string has at most \<open>length s\<close> newlines\<close>
  "split_nl_all s = split_nl (length s) s"

fun join_nl :: "string list \<Rightarrow> string" where
  \<comment> \<open>\<^verbatim>\<open>'\n'.join(parts)\<close>\<close>
  "join_nl [] = []"
| "join_nl [x] = x"
| "join_nl (x # y # r) = x @ NL # join_nl (y # r)"

definition startswith :: "string \<Rightarrow> string \<Rightarrow> bool" where
  "startswith s sub = (take (length sub) s = sub)"

fun contains :: "string \<Rightarrow> string \<Rightarrow> bool" where
  \<comment> \<open>\<^verbatim>\<open>sub in s\<close>\<close>
  "contains sub [] = (sub = [])"
| "contains sub (c # cs) = (startswith (c # cs) sub \<or> contains sub cs)"

fun replace :: "string \<Rightarrow> string \<Rightarrow> string \<Rightarrow> string" where
  \<comment> \<open>\<^verbatim>\<open>s.replace(old, new)\<close> for a non-empty \<open>old\<close>, leftmost matches first\<close>
  "replace old new [] = []"
| "replace old new (c # cs) =
     (if startswith (c # cs) old then new @ replace old new (drop (length old - 1) cs)
      else c # replace old new cs)"

definition count_nl :: "string \<Rightarrow> int" where
  "count_nl s = int (length (filter (\<lambda>c. c = NL) s))"

definition rstrip_nl :: "string \<Rightarrow> string" where
  \<comment> \<open>\<^verbatim>\<open>s.rstrip('\n')\<close>\<close>
  "rstrip_nl s = rev (dropWhile (\<lambda>c. c = NL) (rev s))"

definition basename :: "string \<Rightarrow> string" where
  \<comment> \<open>\<^verbatim>\<open>os.path.split(p)[1]\<close> with the separator \<^verbatim>\<open>/\<close>\<close>
  "basename p = rev (takeWhile (\<lambda>c. c \<noteq> CHR ''/'') (rev p))"

definition is_linebreak :: "char \<Rightarrow> bool" where
  \<comment> \<open>the line boundaries of a Python 3 \<^verbatim>\<open>str\<close> among the code points below 256\<close>
  "is_linebreak c =
     (c \<in> set [CHR 0x0A, CHR 0x0D, CHR 0x0B, CHR 0x0C, CHR 0x1C, CHR 0x1D, CHR 0x1E, CHR 0x85])"

fun lines_acc :: "string \<Rightarrow> string \<Rightarrow> string list" where
  "lines_acc cur [] = (if cur = [] then [] else [rev cur])"
| "lines_acc cur [c] = (if is_linebreak c then [rev cur] else [rev (c # cur)])"
| "lines_acc cur (c # d # cs) =
     (if c = CHR 0x0D \<and> d = CHR 0x0A then rev cur # lines_acc [] cs
      else if is_linebreak c then rev cur # lines_acc [] (d # cs)
      else lines_acc (c # cur) (d # cs))"

definition splitlines :: "string \<Rightarrow> string list" where
  \<comment> \<open>\<^verbatim>\<open>s.splitlines()\<close>: line breaks dropped, no empty last line\<close>
  "splitlines s = lines_acc [] s"

definition py_index :: "'a list \<Rightarrow> int \<Rightarrow> 'a option" where
  \<comment> \<open>\<^verbatim>\<open>xs[i]\<close>, where \<open>-1\<close> is the last element; \<open>None\<close> stands for \<^verbatim>\<open>IndexError\<close>\<close>
  "py_index xs i =
     (if 0 \<le> i \<and> i < int (length xs) then Some (xs ! nat i)
      else if i < 0 \<and> - i \<le> int (length xs) then Some (xs ! nat (int (length xs) + i))
      else None)"

section \<open>Code objects and the executed-source collection\<close>

text \<open>
  A code object is known to the kernel through its identity (\<^verbatim>\<open>id(codeObject)\<close>) and its
  \<^verbatim>\<open>co_filename\<close>, the origin tag it was compiled with, and \<^verbatim>\<open>co_name\<close>.
\<close>

datatype code = Code (code_id: nat) (co_filename: string) (co_name: string)

text \<open>
  \<^verbatim>\<open>ExecutedSourceCollection\<close> is a \<^verbatim>\<open>dict\<close> subclass.  Its keys are whatever \<^verbatim>\<open>_getId\<close>
  returns; a Python function that ends without \<^verbatim>\<open>return\<close> yields \<^verbatim>\<open>None\<close>, so the key
  type is \<open>string option\<close>.
\<close>

type_synonym ExecutedSourceCollection = "string option \<rightharpoonup> string"

definition getId :: "code \<Rightarrow> string option" where
  \<comment> \<open>\<^verbatim>\<open>_getId\<close>: the identity string is computed and dropped, there is no \<^verbatim>\<open>return\<close>\<close>
  "getId codeObject =
     (let id0 = str_int (int (code_id codeObject)) @ ''_'' @ co_filename codeObject
      in None)"

definition storeSource ::
  "ExecutedSourceCollection \<Rightarrow> code \<Rightarrow> string \<Rightarrow> ExecutedSourceCollection" where
  "storeSource self codeObject source = self(getId codeObject \<mapsto> source)"

definition getSource :: "ExecutedSourceCollection \<Rightarrow> code \<Rightarrow> string" where
  "getSource self codeObject = (case self (getId codeObject) of None \<Rightarrow> '''' | Some s \<Rightarrow> s)"

fun storeAll ::
  "ExecutedSourceCollection \<Rightarrow> (code \<times> string) list \<Rightarrow> ExecutedSourceCollection" where
  \<comment> \<open>a sequence of \<^verbatim>\<open>storeSource\<close> calls, oldest first\<close>
  "storeAll self [] = self"
| "storeAll self ((c, s) # rest) = storeAll (storeSource self c s) rest"

section \<open>Origin tags\<close>

definition origin_tag :: "string \<Rightarrow> int \<Rightarrow> string" where
  \<comment> \<open>\<^verbatim>\<open>runlargecode\<close>: \<^verbatim>\<open>if lineno: fname = "%s+%i" % (fname, lineno)\<close>\<close>
  "origin_tag fname lineno = (if lineno \<noteq> 0 then fname @ ''+'' @ str_int lineno else fname)"

definition correctfilenameandlineno :: "string \<Rightarrow> int \<Rightarrow> string \<times> int" where
  \<comment> \<open>\<^verbatim>\<open>fname[j+1:]\<close> is \<open>drop (j + 1)\<close>, \<^verbatim>\<open>fname[:j]\<close> is \<open>take j\<close>; a \<^verbatim>\<open>ValueError\<close> of
      \<^verbatim>\<open>int\<close> leaves both values as they were\<close>
  "correctfilenameandlineno fname lineno =
     (let j = py_find fname CHR ''+'' in
      if j > 0 then
        (case py_int (drop (nat (j + 1)) fname) of
           Some k \<Rightarrow> (take (nat j) fname, lineno + k)
         | None \<Rightarrow> (fname, lineno))
      else (fname, lineno))"

section \<open>Exceptions, frames and tracebacks\<close>

text \<open>
  The exception classes the kernel tells apart.  A constructor stands for the class and
  its subclasses, with one exception: \<^verbatim>\<open>showsyntaxerror\<close> tests \<^verbatim>\<open>type is SyntaxError\<close>, so
  the subclasses of \<^verbatim>\<open>SyntaxError\<close> (\<^verbatim>\<open>IndentationError\<close>, \<^verbatim>\<open>TabError\<close>) have a constructor of
  their own.  \<open>OtherException\<close> is any other class below \<^verbatim>\<open>Exception\<close>;
  \<open>OtherBaseException\<close> is any other class below \<^verbatim>\<open>BaseException\<close> only, such as
  \<^verbatim>\<open>GeneratorExit\<close> or a class the user derives from \<^verbatim>\<open>BaseException\<close>.
\<close>

datatype exc_type =
    BdbQuit
  | TypeError
  | OverflowError
  | ValueError
  | SyntaxError
  | SyntaxErrorSubclass string
  | OtherException string
  | KeyboardInterrupt
  | SystemExit
  | OtherBaseException string

fun is_Exception :: "exc_type \<Rightarrow> bool" where
  \<comment> \<open>\<^verbatim>\<open>isinstance(e, Exception)\<close>\<close>
  "is_Exception KeyboardInterrupt = False"
| "is_Exception SystemExit = False"
| "is_Exception (OtherBaseException n) = False"
| "is_Exception t = True"

fun is_compile_error :: "exc_type \<Rightarrow> bool" where
  \<comment> \<open>\<^verbatim>\<open>except (OverflowError, SyntaxError, ValueError)\<close>\<close>
  "is_compile_error OverflowError = True"
| "is_compile_error SyntaxError = True"
| "is_compile_error (SyntaxErrorSubclass n) = True"
| "is_compile_error ValueError = True"
| "is_compile_error t = False"

text \<open>
  The arguments of an exception value: a syntax error carries
  \<^verbatim>\<open>(msg, (filename, lineno, offset, line))\<close>, anything else a printable argument.
\<close>

datatype exc_args =
    SyntaxArgs string string int int string
  | Args string

datatype exc = Exc (etype: exc_type) (eargs: exc_args)

datatype frame = Frame (f_code: code)

datatype tb_entry = TB (tb_frame: frame) (tb_lineno: int)

text \<open>A traceback is the chain of its entries, outermost first; \<open>[]\<close> is \<^verbatim>\<open>None\<close>.\<close>

type_synonym traceback = "tb_entry list"

type_synonym exc_info = "exc \<times> traceback"

text \<open>A row of \<^verbatim>\<open>traceback.extract_tb\<close>: filename, line number, function name, text.\<close>

type_synonym row = "string \<times> int \<times> string \<times> string"

section \<open>The interpreter state\<close>

text \<open>
  What the kernel does to the outside is kept as a log of events, in order:
  \<open>Write\<close> is \<^verbatim>\<open>self.write\<close> (stderr), \<open>Print\<close> is \<^verbatim>\<open>print\<close> and \<^verbatim>\<open>printDirect\<close>, \<open>Echo\<close>,
  \<open>Status\<close> and \<open>Prompt\<close> are the sends on \<^verbatim>\<open>_strm_echo\<close>, \<^verbatim>\<open>_stat_interpreter\<close> and
  \<^verbatim>\<open>_strm_prompt\<close>, \<open>Sleep\<close> is \<^verbatim>\<open>time.sleep(0.2)\<close>, \<open>Exec\<close> is the \<^verbatim>\<open>exec\<close> of a code object
  (the flag says whether it ran against the debug frame's globals and locals).
\<close>

datatype event =
    Write string
  | Print string
  | Echo string
  | Status string
  | Prompt string
  | Sleep
  | ApplyBreakpoints
  | DebuggerSetOn
  | Exec code bool
  | RunCell string
  | StopInteraction
  | GuiQuit

text \<open>
  The fields of \<^verbatim>\<open>IepInterpreter\<close> the modelled methods read or write, the three
  \<^verbatim>\<open>sys.last_*\<close> globals, and the log.  \<open>ipython\<close> is \<open>None\<close> when no IPython shell was
  loaded, and otherwise holds the shell's \<^verbatim>\<open>execution_count\<close>.
\<close>

record interp =
  filename :: string
  dbFrames :: "frame list"
  dbFrameName :: string
  codeCollection :: ExecutedSourceCollection
  buffer :: "string list"
  more_flag :: bool
  newPrompt :: bool
  ipython :: "int option"
  guiName :: string
  exitException :: "exc option"
  scriptToRunOnStartup :: "string option"
  last_type :: "exc_type option"
  last_value :: "exc option"
  last_traceback :: traceback
  log :: "event list"

text \<open>
  A method either returns a value or raises; the state it leaves behind is kept in both
  cases, since a Python exception does not undo the assignments made before it.
\<close>

datatype 'a result = Return 'a interp | Raise exc interp

fun state_of :: "'a result \<Rightarrow> interp" where
  "state_of (Return v s) = s"
| "state_of (Raise e s) = s"

datatype compiled = Complete code | Incomplete | CompileError exc

text \<open>
  The collaborators outside \<^verbatim>\<open>interpreter.py\<close>, as functions of the kernel state at the
  call: the \<^verbatim>\<open>CommandCompiler\<close> (it returns a code object, \<^verbatim>\<open>None\<close>, or raises), the
  \<^verbatim>\<open>exec\<close> of user code (\<open>None\<close> when it finishes, or the exception and the traceback
  that \<^verbatim>\<open>sys.exc_info()\<close> shows in the handler of \<^verbatim>\<open>execcode\<close>, whose first entry is the
  frame of \<^verbatim>\<open>execcode\<close> itself), the magician, IPython's \<^verbatim>\<open>run_cell\<close> (what it raises
  and the execution count it leaves), \<^verbatim>\<open>linecache\<close> as \<^verbatim>\<open>traceback.extract_tb\<close> reads
  it, the two formatters of the \<^verbatim>\<open>traceback\<close> module, the reading of a script file,
  \<^verbatim>\<open>guiApp.quit\<close> and \<^verbatim>\<open>guiApp.run\<close> (the state when the event loop ends and the
  exception it ended with, if any).  User code is opaque: the model lets it raise, not
  assign to the kernel's own fields.
\<close>

record ext =
  PYTHON_VERSION :: nat
  compile_cmd :: "string \<Rightarrow> string \<Rightarrow> string \<Rightarrow> compiled"
  exec_code :: "interp \<Rightarrow> code \<Rightarrow> exc_info option"
  convert_command :: "interp \<Rightarrow> string \<Rightarrow> exc + string option"
  run_cell :: "interp \<Rightarrow> string \<Rightarrow> exc option \<times> int"
  getline :: "string \<Rightarrow> int \<Rightarrow> string"
  format_list :: "row list \<Rightarrow> string list"
  format_exception_only :: "exc_type option \<Rightarrow> exc option \<Rightarrow> string list"
  read_file :: "string \<Rightarrow> string option"
  gui_quit :: "interp \<Rightarrow> exc option"
  gui_run :: "interp \<Rightarrow> interp \<times> exc option"

definition emit :: "event \<Rightarrow> interp \<Rightarrow> interp" where
  "emit ev s = s\<lparr>log := log s @ [ev]\<rparr>"

definition write_err :: "string \<Rightarrow> interp \<Rightarrow> interp" where
  \<comment> \<open>\<^verbatim>\<open>self.write(text)\<close>, which writes to \<^verbatim>\<open>sys.stderr\<close>\<close>
  "write_err txt s = emit (Write txt) s"

definition write_all :: "string list \<Rightarrow> interp \<Rightarrow> interp" where
  \<comment> \<open>\<^verbatim>\<open>for s in strList: self.write(s)\<close>\<close>
  "write_all strList s = foldl (\<lambda>t str. write_err str t) s strList"

definition resetbuffer :: "interp \<Rightarrow> interp" where
  \<comment> \<open>\<^verbatim>\<open>_resetbuffer\<close>\<close>
  "resetbuffer s = s\<lparr>buffer := []\<rparr>"

section \<open>Prompts\<close>

definition ESC :: string where
  "ESC = [CHR 0x1B]"

definition PS1 :: "interp \<Rightarrow> string" where
  "PS1 s =
     (if dbFrames s \<noteq> [] then ESC @ ''[0;32m'' @ ''('' @ dbFrameName s @ '')'' @ ''>>> ''
      else (case ipython s of
              Some n \<Rightarrow> ESC @ ''[0;32mIn ['' @ ESC @ ''[1;32m'' @ str_int n @ ESC @ ''[0;32m]: ''
            | None \<Rightarrow> ESC @ ''[0;32m>>> ''))"

definition PS2 :: "interp \<Rightarrow> string" where
  "PS2 s =
     (if dbFrames s \<noteq> [] then ESC @ ''[0;32m'' @ ''('' @ dbFrameName s @ '')'' @ ''... ''
      else (case ipython s of
              Some n \<Rightarrow> ESC @ ''[0;32m'' @ replicate (length (str_int n) + 2) CHR '' '' @ ''...: ''
            | None \<Rightarrow> ESC @ ''[0;32m... ''))"

section \<open>Compiling\<close>

definition has_coding :: "string \<Rightarrow> bool" where
  \<comment> \<open>\<^verbatim>\<open>tmp and tmp[0] == '#' and 'coding' in tmp\<close>\<close>
  "has_coding tmp = (case tmp of [] \<Rightarrow> False | c # _ \<Rightarrow> c = CHR ''#'' \<and> contains ''coding'' tmp)"

definition mangle_line :: "string \<Rightarrow> string" where
  \<comment> \<open>\<^verbatim>\<open>tmp.replace('coding=', ci).replace('coding:', ci)\<close> with \<^verbatim>\<open>ci = 'coding is'\<close>\<close>
  "mangle_line tmp = replace ''coding:'' ''coding is'' (replace ''coding='' ''coding is'' tmp)"

fun mangle_parts :: "string list \<Rightarrow> bool \<times> string list" where
  \<comment> \<open>the loop \<^verbatim>\<open>for i in range(len(parts)-1)\<close>: every part but the last\<close>
  "mangle_parts [] = (False, [])"
| "mangle_parts [x] = (False, [x])"
| "mangle_parts (x # y # r) =
     (let (contained_coding, r') = mangle_parts (y # r)
      in if has_coding x then (True, mangle_line x # r') else (contained_coding, x # r'))"

definition compilecode_source :: "string \<Rightarrow> string" where
  \<comment> \<open>the source text that \<^verbatim>\<open>compilecode\<close> hands to the compiler\<close>
  "compilecode_source source =
     (let parts = split_nl 2 source;
          (contained_coding, parts') = mangle_parts parts
      in if contained_coding then join_nl parts' else source)"

definition compilecode :: "ext \<Rightarrow> string \<Rightarrow> string \<Rightarrow> string \<Rightarrow> compiled" where
  \<comment> \<open>under Python 2 the file name is encoded as UTF-8 first, the same bytes here\<close>
  "compilecode E source fname mode = compile_cmd E (compilecode_source source) fname mode"

section \<open>Showing syntax errors and tracebacks\<close>

definition unpack :: "ext \<Rightarrow> exc option \<Rightarrow> (string \<times> string \<times> int \<times> int \<times> string) option" where
  \<comment> \<open>\<^verbatim>\<open>msg, (dummy_filename, lineno, offset, line) = value\<close>: an exception value unpacks
      like its arguments under Python 2; under Python 3 it is not iterable and the
      statement raises, which the bare \<^verbatim>\<open>except\<close> around it turns into \<^verbatim>\<open>pass\<close>\<close>
  "unpack E v =
     (if PYTHON_VERSION E < 3 then
        (case v of
           Some (Exc t (SyntaxArgs m f l off ln)) \<Rightarrow> Some (m, f, l, off, ln)
         | _ \<Rightarrow> None)
      else None)"

definition showsyntaxerror :: "ext \<Rightarrow> interp \<Rightarrow> string \<Rightarrow> exc option \<Rightarrow> interp" where
  \<comment> \<open>\<open>cur\<close> is the value that \<^verbatim>\<open>sys.exc_info()\<close> holds at the call\<close>
  "showsyntaxerror E s fname0 cur =
     (let ty = map_option etype cur;
          stuffed =
            (if fname0 \<noteq> [] \<and> ty = Some SyntaxError then
               (case unpack E cur of
                  Some (m, dummy_filename, lineno, off, ln) \<Rightarrow>
                    (let (fname, lineno') = correctfilenameandlineno fname0 lineno
                     in Some (Exc SyntaxError (SyntaxArgs m fname lineno' off ln)))
                | None \<Rightarrow> None)
             else None);
          val = (case stuffed of Some v \<Rightarrow> Some v | None \<Rightarrow> cur);
          s1 = (case stuffed of Some v \<Rightarrow> s\<lparr>last_value := Some v\<rparr> | None \<Rightarrow> s)
      in write_all (format_exception_only E ty val) s1)"

definition extract_tb :: "ext \<Rightarrow> traceback \<Rightarrow> row list" where
  \<comment> \<open>\<^verbatim>\<open>traceback.extract_tb(tb)\<close>: the text of each row comes from \<^verbatim>\<open>linecache\<close>\<close>
  "extract_tb E tb =
     map (\<lambda>e. (co_filename (f_code (tb_frame e)), tb_lineno e, co_name (f_code (tb_frame e)),
                getline E (co_filename (f_code (tb_frame e))) (tb_lineno e))) tb"

definition rewrite_row :: "ExecutedSourceCollection \<Rightarrow> frame list \<Rightarrow> nat \<Rightarrow> row \<Rightarrow> row" where
  \<comment> \<open>the body of the loop \<^verbatim>\<open>for i in range(len(tblist))\<close> of \<^verbatim>\<open>showtraceback\<close>\<close>
  "rewrite_row coll frames i tbInfo =
     (case tbInfo of (fname0, lineno0, name, text0) \<Rightarrow>
        (let (fname, lineno) = correctfilenameandlineno fname0 lineno0;
             src = (if i < length frames
                    then Some (getSource coll (f_code (frames ! i))) else None);
             example =
               (case src of
                  None \<Rightarrow> text0
                | Some source \<Rightarrow>
                    if source = [] then text0
                    else (case py_index (splitlines source) (lineno0 - 1) of
                            Some l \<Rightarrow> l
                          | None \<Rightarrow> text0))
         in (fname, lineno, name, example)))"

fun rewrite_rows :: "ExecutedSourceCollection \<Rightarrow> frame list \<Rightarrow> nat \<Rightarrow> row list \<Rightarrow> row list" where
  "rewrite_rows coll frames i [] = []"
| "rewrite_rows coll frames i (tbInfo # rest) =
     rewrite_row coll frames i tbInfo # rewrite_rows coll frames (Suc i) rest"

definition traceback_failed :: "interp \<Rightarrow> interp" where
  \<comment> \<open>the handler \<^verbatim>\<open>except Exception\<close> of \<^verbatim>\<open>showtraceback\<close>\<close>
  "traceback_failed s = write_err (''An error occured, but could not write traceback.'' @ [NL]) s"

definition showtraceback :: "ext \<Rightarrow> interp \<Rightarrow> bool \<Rightarrow> exc_info option \<Rightarrow> interp" where
  \<comment> \<open>\<open>cur\<close> is \<^verbatim>\<open>sys.exc_info()\<close>.  \<^verbatim>\<open>tb.tb_next\<close> on \<^verbatim>\<open>None\<close> and \<^verbatim>\<open>frames.pop(0)\<close> on an
      empty list raise, and the handler writes its one-line message\<close>
  "showtraceback E s useLastTraceback cur =
     (let picked =
            (if useLastTraceback then Some (last_type s, last_value s, last_traceback s, s)
             else (case cur of
                     None \<Rightarrow> None
                   | Some (val, tb0) \<Rightarrow>
                       (case tb0 of
                          [] \<Rightarrow> None
                        | us # tb \<Rightarrow>
                            Some (Some (etype val), Some val, tb,
                                  if dbFrames s = []
                                  then s\<lparr>last_type := Some (etype val), last_value := Some val,
                                         last_traceback := tb\<rparr>
                                  else s))))
      in case picked of
           None \<Rightarrow> traceback_failed s
         | Some (ty, val, tb, s1) \<Rightarrow>
             (let tblist = extract_tb E tb in
              case map tb_frame tb of
                [] \<Rightarrow> traceback_failed s1
              | popped # frames \<Rightarrow>
                  (let tblist' = rewrite_rows (codeCollection s1) frames 0 tblist;
                       strList = format_list E tblist';
                       strList' =
                         (if strList \<noteq> []
                          then (''Traceback (most recent call last):'' @ [NL]) # strList
                          else strList) @ format_exception_only E ty val
                   in write_all strList' s1)))"

section \<open>Executing code\<close>

definition dbstop_handler :: "interp \<Rightarrow> interp" where
  "dbstop_handler s = emit (Print ''Program execution stopped from debugger.'') s"

definition execcode :: "ext \<Rightarrow> interp \<Rightarrow> code \<Rightarrow> unit result" where
  \<comment> \<open>the handlers in the order of the source: \<^verbatim>\<open>bdb.BdbQuit\<close>, \<^verbatim>\<open>Exception\<close>,
      \<^verbatim>\<open>KeyboardInterrupt\<close>; anything else propagates\<close>
  "execcode E s c =
     (let dbg = (dbFrames s \<noteq> []);
          s1 = emit ApplyBreakpoints s;
          s2 = (if dbg then s1 else emit DebuggerSetOn s1);
          s3 = emit (Exec c dbg) s2
      in case exec_code E s2 c of
           None \<Rightarrow> Return () s3
         | Some (e, tb) \<Rightarrow>
             if etype e = BdbQuit then Return () (dbstop_handler s3)
             else if is_Exception (etype e)
               then Return () (showtraceback E (emit Sleep s3) False (Some (e, tb)))
             else if etype e = KeyboardInterrupt
               then Return () (showtraceback E (emit Sleep s3) False (Some (e, tb)))
             else Raise e s3)"

definition run_ipython :: "ext \<Rightarrow> interp \<Rightarrow> string \<Rightarrow> bool result" where
  \<comment> \<open>\<^verbatim>\<open>self._ipython.run_cell(source, True); return False\<close>\<close>
  "run_ipython E s source =
     (let (raised, n) = run_cell E s source;
          s1 = (emit (RunCell source) s)\<lparr>ipython := Some n\<rparr>
      in case raised of None \<Rightarrow> Return False s1 | Some e \<Rightarrow> Raise e s1)"

definition runlines :: "ext \<Rightarrow> interp \<Rightarrow> string \<Rightarrow> string \<Rightarrow> string \<Rightarrow> bool result" where
  \<comment> \<open>\<^verbatim>\<open>_runlines\<close>.  \<^verbatim>\<open>showsyntaxerror\<close> is called after the \<^verbatim>\<open>except\<close> block has ended:
      \<^verbatim>\<open>sys.exc_info()\<close> still holds the error under Python 2 and is cleared under
      Python 3\<close>
  "runlines E s source fname symbol =
     (let use_ipython = (ipython s \<noteq> None \<and> dbFrames s = [])
      in case compilecode E source fname symbol of
           CompileError e \<Rightarrow>
             if is_compile_error (etype e) then
               (if use_ipython then run_ipython E s source
                else Return False
                       (showsyntaxerror E s fname (if PYTHON_VERSION E < 3 then Some e else None)))
             else Raise e s
         | Incomplete \<Rightarrow> Return True s
         | Complete c \<Rightarrow>
             if use_ipython then run_ipython E s source
             else (case execcode E s c of
                     Return u s1 \<Rightarrow> Return False s1
                   | Raise e s1 \<Rightarrow> Raise e s1))"

definition pushline :: "ext \<Rightarrow> interp \<Rightarrow> string \<Rightarrow> bool result" where
  "pushline E s ln =
     (let buffer' = buffer s @ [ln];
          source = join_nl buffer';
          s1 = resetbuffer s
      in case runlines E s1 source (filename s1) ''single'' of
           Return m s2 \<Rightarrow> Return m (if m then s2\<lparr>buffer := buffer'\<rparr> else s2)
         | Raise e s2 \<Rightarrow> Raise e s2)"

record msg =
  msg_source :: string
  msg_fname :: string
  msg_lineno :: int
  cellName :: string

definition DQ :: string where
  "DQ = [CHR 0x22]"

definition runtext :: "string \<Rightarrow> int \<Rightarrow> int \<Rightarrow> string \<Rightarrow> string" where
  "runtext cell lineno1 lineno2 fname_show =
     (if cell \<noteq> [] then
        ''(executing cell '' @ DQ @ cell @ DQ @ '' (line '' @ str_int lineno1 @ '' of ''
          @ DQ @ fname_show @ DQ @ ''))'' @ [NL]
      else if lineno1 = lineno2 then
        ''(executing line '' @ str_int lineno1 @ '' of '' @ DQ @ fname_show @ DQ @ '')'' @ [NL]
      else
        ''(executing lines '' @ str_int lineno1 @ '' to '' @ str_int lineno2 @ '' of ''
          @ DQ @ fname_show @ DQ @ '')'' @ [NL])"

definition runlargecode :: "ext \<Rightarrow> interp \<Rightarrow> msg \<Rightarrow> unit result" where
  \<comment> \<open>\<^verbatim>\<open>showsyntaxerror\<close> is called inside the \<^verbatim>\<open>except\<close> block here, where
      \<^verbatim>\<open>sys.exc_info()\<close> holds the error under both Python versions\<close>
  "runlargecode E s m =
     (let source = msg_source m @ [NL];
          lineno1 = msg_lineno m + 1;
          lineno2 = msg_lineno m + count_nl source;
          fname_show = (if startswith (msg_fname m) ''<'' then msg_fname m
                        else basename (msg_fname m));
          s1 = emit (Echo (ESC @ ''[0;33m'' @ runtext (cellName m) lineno1 lineno2 fname_show)) s;
          s2 = (case ipython s1 of Some n \<Rightarrow> s1\<lparr>ipython := Some (n + 1)\<rparr> | None \<Rightarrow> s1);
          fname = origin_tag (msg_fname m) (msg_lineno m)
      in case compilecode E source fname ''exec'' of
           CompileError e \<Rightarrow>
             if is_compile_error (etype e)
             then Return () (showsyntaxerror E s2 fname (Some e))
             else Raise e s2
         | Complete c \<Rightarrow>
             execcode E (s2\<lparr>codeCollection := storeSource (codeCollection s2) c source\<rparr>) c
         | Incomplete \<Rightarrow>
             Return () (write_err (''Could not run code because it is incomplete.'' @ [NL]) s2))"

definition runfile :: "ext \<Rightarrow> interp \<Rightarrow> string \<Rightarrow> unit result" where
  "runfile E s fname =
     (case read_file E fname of
        None \<Rightarrow>
          Return () (emit (Print (''Could not read script (decoding using UTF-8): ''
                                  @ DQ @ fname @ DQ @ [NL])) s)
      | Some raw \<Rightarrow>
          (let src = replace [CHR 0x0D] [NL] (replace [CHR 0x0D, NL] [NL] raw) in
           if src = [] then
             Return () (emit (Print (''Could not execute script: '' @ DQ @ fname @ DQ @ [NL])) s)
           else
             (let source = (if last src \<noteq> NL then src @ [NL] else src) in
              case compilecode E source fname ''exec'' of
                CompileError e \<Rightarrow>
                  if is_compile_error (etype e)
                  then Return () (showsyntaxerror E (emit Sleep s) fname (Some e))
                  else Raise e s
              | Complete c \<Rightarrow>
                  execcode E (s\<lparr>codeCollection := storeSource (codeCollection s) c source\<rparr>) c
              | Incomplete \<Rightarrow>
                  Return () (write_err (''Could not run code because it is incomplete.'' @ [NL]) s))))"

section \<open>The REPL tick and the main loop\<close>

text \<open>
  What one tick finds outside: whether stdin is closed, how many peers are connected,
  and the channel \<^verbatim>\<open>yoton.select_sub_channel\<close> picked with the message waiting there.
\<close>

datatype channel = NoChannel | CtrlCommand string | CtrlCode "msg option" | OtherChannel

record tick =
  stdin_closed :: bool
  connection_count :: nat
  selected :: channel

definition status_of :: "interp \<Rightarrow> string" where
  "status_of s = (if dbFrames s \<noteq> [] then ''Debug'' else if more_flag s then ''More'' else ''Ready'')"

fun push_lines :: "ext \<Rightarrow> interp \<Rightarrow> string list \<Rightarrow> unit result" where
  \<comment> \<open>\<^verbatim>\<open>for line3 in line2.split('\n'): self.more = self.pushline(line3)\<close>\<close>
  "push_lines E s [] = Return () s"
| "push_lines E s (line3 # rest) =
     (case pushline E s line3 of
        Return m s1 \<Rightarrow> push_lines E (s1\<lparr>more_flag := m\<rparr>) rest
      | Raise e s1 \<Rightarrow> Raise e s1)"

definition inner_process_commands :: "ext \<Rightarrow> interp \<Rightarrow> tick \<Rightarrow> unit result" where
  \<comment> \<open>\<^verbatim>\<open>_process_commands\<close>\<close>
  "inner_process_commands E s t =
     (let started =
            (case scriptToRunOnStartup s of
               None \<Rightarrow> Return () s
             | Some tmp \<Rightarrow>
                 if tmp = [] then Return () s
                 else runfile E ((emit (Status ''Busy'') s)\<lparr>scriptToRunOnStartup := None\<rparr>) tmp)
      in case started of
           Raise e s1 \<Rightarrow> Raise e s1
         | Return u s1 \<Rightarrow>
             (let s2 = (if newPrompt s1
                        then emit (Prompt (if more_flag s1 then PS2 s1 else PS1 s1))
                               (s1\<lparr>newPrompt := False\<rparr>)
                        else s1);
                  s3 = emit (Status (status_of s2)) s2
              in if stdin_closed t \<or> connection_count t = 0
                 then Raise (Exc SystemExit (Args [])) s3
                 else
                   (case selected t of
                      NoChannel \<Rightarrow> Return () s3
                    | CtrlCommand line1 \<Rightarrow>
                        if line1 = [] then Return () s3
                        else
                          (let s4 = (emit (Status ''Busy'') (emit (Echo line1) s3))
                                      \<lparr>newPrompt := True\<rparr>
                           in case convert_command E s4 (rstrip_nl line1) of
                                Inl e \<Rightarrow> Raise e s4
                              | Inr None \<Rightarrow> Return () (resetbuffer (s4\<lparr>more_flag := False\<rparr>))
                              | Inr (Some line2) \<Rightarrow> push_lines E s4 (split_nl_all line2))
                    | CtrlCode None \<Rightarrow> Return () s3
                    | CtrlCode (Some m) \<Rightarrow>
                        (let s4 = (emit (Status ''Busy'') s3)\<lparr>newPrompt := True\<rparr>
                         in case runlargecode E s4 m of
                              Raise e s5 \<Rightarrow> Raise e s5
                            | Return u s5 \<Rightarrow> Return () ((resetbuffer s5)\<lparr>more_flag := False\<rparr>))
                    | OtherChannel \<Rightarrow> Return () s3)))"

definition interrupted :: "string \<Rightarrow> interp \<Rightarrow> interp" where
  \<comment> \<open>\<^verbatim>\<open>self.write(text); self._resetbuffer(); self.more = 0\<close>\<close>
  "interrupted txt s = (resetbuffer (write_err txt s))\<lparr>more_flag := False\<rparr>"

definition process_commands :: "ext \<Rightarrow> interp \<Rightarrow> tick \<Rightarrow> unit result" where
  \<comment> \<open>the handlers in the order of the source: \<^verbatim>\<open>KeyboardInterrupt\<close>, \<^verbatim>\<open>TypeError\<close>,
      \<^verbatim>\<open>SystemExit\<close>; anything else propagates\<close>
  "process_commands E s t =
     (case inner_process_commands E s t of
        Return u s1 \<Rightarrow> Return () s1
      | Raise e s1 \<Rightarrow>
          if etype e = KeyboardInterrupt
            then Return () (interrupted (NL # ''KeyboardInterrupt'' @ [NL]) s1)
          else if etype e = TypeError
            then Return () (if guiName s1 = ''WX''
                            then interrupted (NL # ''Keyboard Interrupt'' @ [NL]) s1
                            else s1)
          else if etype e = SystemExit
            then (let s2 = emit GuiQuit (emit StopInteraction (s1\<lparr>exitException := Some e\<rparr>))
                  in case gui_quit E s2 of
                       None \<Rightarrow> Return () s2
                     | Some e' \<Rightarrow> Raise e' s2)
          else Raise e s1)"

definition exit_with :: "interp \<Rightarrow> unit result" where
  \<comment> \<open>the last three lines of \<^verbatim>\<open>run\<close>\<close>
  "exit_with s =
     (case exitException s of
        None \<Rightarrow> Raise (Exc SystemExit (Args [])) (s\<lparr>exitException := Some (Exc SystemExit (Args []))\<rparr>)
      | Some e \<Rightarrow> Raise e s)"

definition run :: "ext \<Rightarrow> interp \<Rightarrow> unit result" where
  \<comment> \<open>\<^verbatim>\<open>run\<close> from the state that \<^verbatim>\<open>_prepare\<close> leaves\<close>
  "run E s =
     (let (s1, ended) = gui_run E (s\<lparr>exitException := None\<rparr>)
      in case ended of
           None \<Rightarrow> exit_with s1
         | Some e \<Rightarrow>
             if etype e = SystemExit
             then exit_with (if exitException s1 = None then s1\<lparr>exitException := Some e\<rparr> else s1)
             else Raise e s1)"

section \<open>Concrete collaborators and inputs for the examples\<close>

definition demo_format_list :: "row list \<Rightarrow> string list" where
  \<comment> \<open>the layout of \<^verbatim>\<open>traceback.format_list\<close>: the stripped text line, only when there is
      text\<close>
  "demo_format_list rows =
     map (\<lambda>(f, l, n, t).
            ''  File '' @ DQ @ f @ DQ @ '', line '' @ str_int l @ '', in '' @ n @ [NL]
            @ (if t = [] then [] else ''    '' @ py_strip t @ [NL])) rows"

definition demo_format_exception_only :: "exc_type option \<Rightarrow> exc option \<Rightarrow> string list" where
  "demo_format_exception_only ty v =
     (case v of
        None \<Rightarrow> [''None'' @ [NL]]
      | Some (Exc t (Args a)) \<Rightarrow> [a @ [NL]]
      | Some (Exc t (SyntaxArgs m f l off ln)) \<Rightarrow>
          [''  File '' @ DQ @ f @ DQ @ '', line '' @ str_int l @ [NL], ''SyntaxError: '' @ m @ [NL]])"

definition demo_ext :: ext where
  \<comment> \<open>Python 3, a compiler that accepts everything, user code that finishes, no magic\<close>
  "demo_ext =
     \<lparr>PYTHON_VERSION = 3,
      compile_cmd = (\<lambda>src fn mode. Complete (Code 1 fn ''<module>'')),
      exec_code = (\<lambda>s c. None),
      convert_command = (\<lambda>s l. Inr (Some l)),
      run_cell = (\<lambda>s src. (None, case ipython s of Some n \<Rightarrow> n + 1 | None \<Rightarrow> 0)),
      getline = (\<lambda>f l. []),
      format_list = demo_format_list,
      format_exception_only = demo_format_exception_only,
      read_file = (\<lambda>f. None),
      gui_quit = (\<lambda>s. None),
      gui_run = (\<lambda>s. (s, None))\<rparr>"

definition demo_state :: interp where
  \<comment> \<open>the state \<^verbatim>\<open>__init__\<close> sets up, with no GUI and no IPython\<close>
  "demo_state =
     \<lparr>filename = ''<console>'', dbFrames = [], dbFrameName = [], codeCollection = Map.empty,
      buffer = [], more_flag = False, newPrompt = True, ipython = None, guiName = [],
      exitException = None, scriptToRunOnStartup = None,
      last_type = None, last_value = None, last_traceback = [], log = []\<rparr>"

definition demo_tick :: "channel \<Rightarrow> tick" where
  "demo_tick ch = \<lparr>stdin_closed = False, connection_count = 1, selected = ch\<rparr>"

definition kernel_frame :: tb_entry where
  \<comment> \<open>the traceback entry of \<^verbatim>\<open>execcode\<close> itself, at its \<^verbatim>\<open>exec\<close> call\<close>
  "kernel_frame = TB (Frame (Code 0 ''interpreter.py'' ''execcode'')) 752"

definition zero_division :: exc where
  "zero_division = Exc (OtherException ''ZeroDivisionError'') (Args ''ZeroDivisionError: division by zero'')"

definition block_msg :: msg where
  \<comment> \<open>the block \<^verbatim>\<open>{source: "a=1\nb=1/0\n", fname: "ex.py", lineno: 10}\<close>\<close>
  "block_msg =
     \<lparr>msg_source = ''a=1'' @ [NL] @ ''b=1/0'' @ [NL], msg_fname = ''ex.py'', msg_lineno = 10,
      cellName = []\<rparr>"

definition failing_ext :: ext where
  \<comment> \<open>user code that raises on the second line of its module\<close>
  "failing_ext = demo_ext\<lparr>exec_code := (\<lambda>s c. Some (zero_division, [kernel_frame, TB (Frame c) 2]))\<rparr>"

fun written :: "event list \<Rightarrow> string list" where
  \<comment> \<open>what was written to stderr, in order\<close>
  "written [] = []"
| "written (Write x # evs) = x # written evs"
| "written (ev # evs) = written evs"

fun raised :: "'a result \<Rightarrow> exc option" where
  \<comment> \<open>the exception a call ends with, \<open>None\<close> when it returns\<close>
  "raised (Return v s) = None"
| "raised (Raise e s) = Some e"

definition keyboard_interrupt :: exc where
  "keyboard_interrupt = Exc KeyboardInterrupt (Args ''KeyboardInterrupt'')"

definition type_error :: exc where
  "type_error = Exc TypeError (Args ''TypeError: an integer is required'')"

definition generator_exit :: exc where
  "generator_exit = Exc (OtherBaseException ''GeneratorExit'') (Args ''GeneratorExit'')"

definition syntax_error :: exc where
  \<comment> \<open>what the compiler raises for \<^verbatim>\<open>x = = 1\<close>\<close>
  "syntax_error = Exc SyntaxError (SyntaxArgs ''invalid syntax'' ''<string>'' 1 5 ''x = = 1'')"

definition runtime_error :: exc where
  "runtime_error = Exc (OtherException ''RuntimeError'') (Args ''RuntimeError: event loop failed'')"

definition system_exit_7 :: exc where
  "system_exit_7 = Exc SystemExit (Args ''7'')"

definition interrupting_ext :: ext where
  \<comment> \<open>the magician is interrupted from the keyboard\<close>
  "interrupting_ext = demo_ext\<lparr>convert_command := (\<lambda>s l. Inl keyboard_interrupt)\<rparr>"

definition type_error_ext :: ext where
  \<comment> \<open>a \<^verbatim>\<open>TypeError\<close> escapes the magician\<close>
  "type_error_ext = demo_ext\<lparr>convert_command := (\<lambda>s l. Inl type_error)\<rparr>"

definition incomplete_ext :: ext where
  \<comment> \<open>a compiler that asks for more input\<close>
  "incomplete_ext = demo_ext\<lparr>compile_cmd := (\<lambda>src fn mode. Incomplete)\<rparr>"

definition invalid_ext :: ext where
  \<comment> \<open>a compiler that rejects its input\<close>
  "invalid_ext = demo_ext\<lparr>compile_cmd := (\<lambda>src fn mode. CompileError syntax_error)\<rparr>"

definition invalid_py2_ext :: ext where
  "invalid_py2_ext = invalid_ext\<lparr>PYTHON_VERSION := 2\<rparr>"

definition generator_exit_ext :: ext where
  \<comment> \<open>user code that runs \<^verbatim>\<open>raise GeneratorExit\<close>\<close>
  "generator_exit_ext =
     demo_ext\<lparr>exec_code := (\<lambda>s c. Some (generator_exit, [kernel_frame, TB (Frame c) 1]))\<rparr>"

definition crashing_loop_ext :: ext where
  \<comment> \<open>an event loop that is left by a \<^verbatim>\<open>RuntimeError\<close> after a tick stored the exit intent\<close>
  "crashing_loop_ext =
     demo_ext\<lparr>gui_run := (\<lambda>s. (s\<lparr>exitException := Some system_exit_7\<rparr>, Some runtime_error))\<rparr>"

definition waiting_state :: interp where
  \<comment> \<open>the kernel after the line \<^verbatim>\<open>def f():\<close>\<close>
  "waiting_state = demo_state\<lparr>buffer := [''def f():''], more_flag := True\<rparr>"

definition tk_state :: interp where
  "tk_state = waiting_state\<lparr>guiName := ''TK''\<rparr>"

definition value_error :: exc where
  "value_error = Exc ValueError (Args ''ValueError: bad value'')"

definition value_error_ext :: ext where
  \<comment> \<open>a \<^verbatim>\<open>ValueError\<close> escapes the magician\<close>
  "value_error_ext = demo_ext\<lparr>convert_command := (\<lambda>s l. Inl value_error)\<rparr>"



definition debug_state :: interp where
  \<comment> \<open>paused post mortem in a frame of \<^verbatim>\<open>script.py\<close>\<close>
  "debug_state =
     demo_state\<lparr>dbFrames := [Frame (Code 7 ''script.py'' ''f'')], dbFrameName := ''f'',
                last_type := Some (OtherException ''ZeroDivisionError''),
                last_value := Some zero_division,
                last_traceback := [TB (Frame (Code 7 ''script.py'' ''f'')) 3]\<rparr>"


definition later_state :: interp where
  \<comment> \<open>a block of \<^verbatim>\<open>a.py\<close> failed in a call on its first line; then a block of \<^verbatim>\<open>b.py\<close> ran\<close>
  "later_state =
     demo_state\<lparr>codeCollection :=
                  storeAll Map.empty
                    [(Code 1 ''a.py'' ''<module>'', ''compute()'' @ [NL, NL]),
                     (Code 2 ''b.py'' ''<module>'', ''print(1)'' @ [NL, NL])],
                last_type := Some (OtherException ''ZeroDivisionError''),
                last_value := Some zero_division,
                last_traceback :=
                  [TB (Frame (Code 1 ''a.py'' ''<module>'')) 1,
                   TB (Frame (Code 3 ''lib.py'' ''compute'')) 40]\<rparr>"

section \<open>Results about the source collection\<close>

lemma getId_None: "getId c = None"
  by (simp add: getId_def)

lemma storeSource_eq: "storeSource d c s = d(None \<mapsto> s)"
  by (simp add: storeSource_def getId_None)

lemma dom_storeAll:
  "dom (storeAll d xs) = (if xs = [] then dom d else insert None (dom d))"
proof (induction d xs rule: storeAll.induct)
  case (1 self)
  show ?case by simp
next
  case (2 self c s rest)
  have "dom (storeSource self c s) = insert None (dom self)"
    unfolding storeSource_eq by simp
  with 2 show ?case by simp
qed

lemma storeAll_None:
  "storeAll d xs None = (if xs = [] then d None else Some (snd (last xs)))"
proof (induction d xs rule: storeAll.induct)
  case (1 self)
  show ?case by simp
next
  case (2 self c s rest)
  have "storeSource self c s None = Some s"
    unfolding storeSource_eq by simp
  with 2 show ?case by simp
qed

text \<open>
  Claim C3.  \<^verbatim>\<open>_getId\<close> returns \<^verbatim>\<open>None\<close> for every code object, every \<^verbatim>\<open>storeSource\<close>
  writes under that one key, and so after any sequence of stores on a fresh collection
  \<^verbatim>\<open>getSource(c)\<close> is the most recently stored source for every code object \<open>c\<close>, stored
  or not, and the empty string when nothing was stored.
\<close>

theorem getSource_is_last_stored:
  "getId c = None
   \<and> dom (storeAll Map.empty xs) = (if xs = [] then {} else {None})
   \<and> getSource (storeAll Map.empty xs) c' = (if xs = [] then '''' else snd (last xs))"
  by (simp add: getId_None dom_storeAll getSource_def storeAll_None)

section \<open>The state fields that writing and executing leave alone\<close>

lemma emit_fields [simp]:
  "buffer (emit ev s) = buffer s" "ipython (emit ev s) = ipython s"
  "dbFrames (emit ev s) = dbFrames s" "log (emit ev s) = log s @ [ev]"
  "last_value (emit ev s) = last_value s" "last_type (emit ev s) = last_type s"
  "last_traceback (emit ev s) = last_traceback s" "guiName (emit ev s) = guiName s"
  "exitException (emit ev s) = exitException s" "codeCollection (emit ev s) = codeCollection s"
  "filename (emit ev s) = filename s" "more_flag (emit ev s) = more_flag s"
  by (simp_all add: emit_def)

lemma resetbuffer_fields [simp]:
  "buffer (resetbuffer s) = []" "ipython (resetbuffer s) = ipython s"
  "filename (resetbuffer s) = filename s" "dbFrames (resetbuffer s) = dbFrames s"
  by (simp_all add: resetbuffer_def)

lemma write_all_buffer [simp]: "buffer (write_all xs s) = buffer s"
  unfolding write_all_def by (induction xs arbitrary: s) (simp_all add: write_err_def)

lemma write_all_ipython [simp]: "ipython (write_all xs s) = ipython s"
  unfolding write_all_def by (induction xs arbitrary: s) (simp_all add: write_err_def)

lemma write_all_last_type [simp]: "last_type (write_all xs s) = last_type s"
  unfolding write_all_def by (induction xs arbitrary: s) (simp_all add: write_err_def)

lemma write_all_last_value [simp]: "last_value (write_all xs s) = last_value s"
  unfolding write_all_def by (induction xs arbitrary: s) (simp_all add: write_err_def)

lemma write_all_last_traceback [simp]: "last_traceback (write_all xs s) = last_traceback s"
  unfolding write_all_def by (induction xs arbitrary: s) (simp_all add: write_err_def)

lemma showsyntaxerror_buffer [simp]: "buffer (showsyntaxerror E s f cur) = buffer s"
  by (simp add: showsyntaxerror_def Let_def split: option.splits prod.splits)

lemma showsyntaxerror_ipython [simp]: "ipython (showsyntaxerror E s f cur) = ipython s"
  by (simp add: showsyntaxerror_def Let_def split: option.splits prod.splits)

lemma showtraceback_buffer [simp]: "buffer (showtraceback E s u cur) = buffer s"
  by (simp add: showtraceback_def traceback_failed_def write_err_def Let_def
      split: option.splits prod.splits list.splits)

lemma showtraceback_ipython [simp]: "ipython (showtraceback E s u cur) = ipython s"
  by (simp add: showtraceback_def traceback_failed_def write_err_def Let_def
      split: option.splits prod.splits list.splits)

text \<open>
  \<^verbatim>\<open>showtraceback\<close> has the guard \<^verbatim>\<open>if not self._dbFrames\<close>: in debug mode it leaves the
  three \<^verbatim>\<open>sys.last_*\<close> globals as they are.
\<close>

lemma showtraceback_keeps_last_in_debug:
  assumes "dbFrames s \<noteq> []"
  shows "last_type (showtraceback E s u cur) = last_type s"
    and "last_value (showtraceback E s u cur) = last_value s"
    and "last_traceback (showtraceback E s u cur) = last_traceback s"
  using assms
  by (simp_all add: showtraceback_def traceback_failed_def write_err_def Let_def
      split: option.splits prod.splits list.splits)

lemma execcode_buffer [simp]: "buffer (state_of (execcode E s c)) = buffer s"
  by (simp add: execcode_def dbstop_handler_def Let_def split: option.splits prod.splits)


text \<open>
  Which exceptions leave \<^verbatim>\<open>execcode\<close>: those that are neither \<^verbatim>\<open>BdbQuit\<close>, nor below
  \<^verbatim>\<open>Exception\<close>, nor a \<^verbatim>\<open>KeyboardInterrupt\<close>.
\<close>

lemma execcode_raised:
  "raised (execcode E s c) =
     (case exec_code E (if dbFrames s \<noteq> [] then emit ApplyBreakpoints s
                        else emit DebuggerSetOn (emit ApplyBreakpoints s)) c of
        None \<Rightarrow> None
      | Some (e, tb) \<Rightarrow>
          if etype e = BdbQuit \<or> is_Exception (etype e) \<or> etype e = KeyboardInterrupt
          then None else Some e)"
  by (simp add: execcode_def Let_def split: option.splits prod.splits)

lemma run_ipython_buffer [simp]: "buffer (state_of (run_ipython E s src)) = buffer s"
  by (simp add: run_ipython_def Let_def split: option.splits prod.splits)

lemma runlines_buffer [simp]: "buffer (state_of (runlines E s src f symb)) = buffer s"
proof (cases "compilecode E src f symb")
  case (Complete c)
  then show ?thesis
    using execcode_buffer [of E s c]
    by (cases "execcode E s c") (simp_all add: runlines_def)
qed (simp_all add: runlines_def)

lemma runlines_more:
  "runlines E s src f symb = Return m s' \<Longrightarrow> m = (compilecode E src f symb = Incomplete)"
  by (cases "compilecode E src f symb")
     (auto simp add: runlines_def run_ipython_def Let_def
           split: if_splits option.splits prod.splits result.splits)

lemma runlines_incomplete:
  "compilecode E src f symb = Incomplete \<Longrightarrow> runlines E s src f symb = Return True s"
  by (simp add: runlines_def)

lemma pushline_unfold:
  "pushline E s ln =
     (case runlines E (resetbuffer s) (join_nl (buffer s @ [ln])) (filename s) ''single'' of
        Return m s2 \<Rightarrow> Return m (if m then s2\<lparr>buffer := buffer s @ [ln]\<rparr> else s2)
      | Raise e s2 \<Rightarrow> Raise e s2)"
  by (simp add: pushline_def Let_def)

lemma raised_Some: "raised r = Some e \<Longrightarrow> r = Raise e (state_of r)"
  by (cases r) simp_all

lemma interrupted_fields [simp]:
  "buffer (interrupted txt s) = []" "more_flag (interrupted txt s) = False"
  "log (interrupted txt s) = log s @ [Write txt]"
  by (simp_all add: interrupted_def resetbuffer_def write_err_def emit_def)

lemma written_append: "written (xs @ ys) = written xs @ written ys"
  by (induction xs rule: written.induct) simp_all


text \<open>
  What the handler \<^verbatim>\<open>except TypeError\<close> of \<^verbatim>\<open>process_commands\<close> does: it catches for every
  value of \<^verbatim>\<open>self.guiName\<close>, and writes, empties the buffer and resets \<^verbatim>\<open>more\<close> only for
  \<^verbatim>\<open>WX\<close>.
\<close>

lemma process_commands_typeerror:
  "inner_process_commands E s t = Raise e s1 \<Longrightarrow> etype e = TypeError \<Longrightarrow>
     process_commands E s t
       = Return () (if guiName s1 = ''WX''
                    then interrupted (NL # ''Keyboard Interrupt'' @ [NL]) s1 else s1)"
  by (simp add: process_commands_def)





section \<open>What the traceback rewriter shows\<close>

text \<open>
  \<^verbatim>\<open>showtraceback\<close> drops the kernel's entry with \<^verbatim>\<open>tb.tb_next\<close> and then pops the first
  frame as well, so the list of frames is one shorter than the list of rows: the last
  row, where the exception was raised, never gets a stored source and keeps the text
  that \<^verbatim>\<open>linecache\<close> gave.
\<close>

lemma rewrite_rows_length [simp]: "length (rewrite_rows coll frames i rows) = length rows"
  by (induction rows arbitrary: i) simp_all

lemma rewrite_rows_last_text:
  "rows \<noteq> [] \<Longrightarrow> length frames < i + length rows \<Longrightarrow>
     snd (snd (snd (last (rewrite_rows coll frames i rows)))) = snd (snd (snd (last rows)))"
proof (induction rows arbitrary: i)
  case Nil
  then show ?case by simp
next
  case (Cons r rows)
  show ?case
  proof (cases "rows = []")
    case True
    with Cons.prems show ?thesis
      by (cases r) (simp add: rewrite_row_def Let_def split: prod.splits)
  next
    case False
    with Cons.prems have "length frames < Suc i + length rows"
      by simp
    moreover have "rewrite_rows coll frames (Suc i) rows \<noteq> []"
      using False by (cases rows) simp_all
    ultimately show ?thesis
      using Cons.IH [OF False] False by simp
  qed
qed

lemma innermost_row_keeps_linecache_text:
  assumes "tb \<noteq> []"
  shows "snd (snd (snd (last (rewrite_rows coll (tl (map tb_frame tb)) 0 (extract_tb E tb)))))
           = getline E (co_filename (f_code (tb_frame (last tb)))) (tb_lineno (last tb))"
proof -
  have ne: "extract_tb E tb \<noteq> []"
    using assms by (simp add: extract_tb_def)
  have len: "length (tl (map tb_frame tb)) < 0 + length (extract_tb E tb)"
    using assms by (simp add: extract_tb_def)
  have "last (extract_tb E tb)
          = (co_filename (f_code (tb_frame (last tb))), tb_lineno (last tb),
             co_name (f_code (tb_frame (last tb))),
             getline E (co_filename (f_code (tb_frame (last tb)))) (tb_lineno (last tb)))"
    using assms by (simp add: extract_tb_def last_map)
  then show ?thesis
    using rewrite_rows_last_text [OF ne len, of coll] by simp
qed

section \<open>Sources of one line\<close>

lemma break_nl_None: "NL \<notin> set s \<Longrightarrow> break_nl s = None"
  by (induction s) auto

text \<open>
  A source without a newline is one part, the loop of \<^verbatim>\<open>compilecode\<close> runs over
  \<^verbatim>\<open>range(0)\<close>, and the compiler gets the source as it is.
\<close>

lemma single_line_unchanged: "NL \<notin> set source \<Longrightarrow> compilecode_source source = source"
  by (simp add: compilecode_source_def numeral_2_eq_2 break_nl_None)

section \<open>How \<^verbatim>\<open>run\<close> ends\<close>

lemma run_always_raises: "raised (run E s) \<noteq> None"
  by (simp add: run_def exit_with_def Let_def split: prod.splits option.splits)

text \<open>
  When the event loop returns, or is left by a \<^verbatim>\<open>SystemExit\<close>, \<^verbatim>\<open>run\<close> raises the stored
  exit intent if there is one, else the event loop's \<^verbatim>\<open>SystemExit\<close>, else a fresh one.
\<close>

lemma run_exit_precedence:
  assumes "gui_run E (s\<lparr>exitException := None\<rparr>) = (s1, ended)"
    and "case ended of None \<Rightarrow> True | Some e \<Rightarrow> etype e = SystemExit"
  shows "raised (run E s) =
           Some (case exitException s1 of
                   Some intent \<Rightarrow> intent
                 | None \<Rightarrow> (case ended of Some e \<Rightarrow> e | None \<Rightarrow> Exc SystemExit (Args [])))"
  using assms by (simp add: run_def exit_with_def split: option.splits)

section \<open>Decimal numbers and origin tags\<close>

lemma below_ten: "d < 10 \<Longrightarrow> d \<in> {0, 1, 2, 3, 4, 5, 6, 7, 8, 9::nat}"
  by auto

lemma digit_char_props:
  assumes "d < 10"
  shows "is_digit (digit_char d)" and "digit_val (digit_char d) = d"
    and "\<not> is_space (digit_char d)" and "digit_char d \<noteq> CHR ''-''"
    and "digit_char d \<noteq> CHR ''+''" and "digit_char d \<noteq> CHR ''_''"
  using below_ten [OF assms]
  by (auto simp add: digit_char_def is_digit_def digit_val_def is_space_def)

lemma digits_not_Nil: "digits n \<noteq> []"
  by (subst digits.simps) simp

lemma digits_all: "c \<in> set (digits n) \<Longrightarrow> \<exists>d<10. c = digit_char d"
proof (induction n arbitrary: c rule: digits.induct)
  case (1 n)
  show ?case
  proof (cases "n < 10")
    case True
    with "1.prems" show ?thesis
      by (subst (asm) digits.simps) auto
  next
    case False
    have "c \<in> set (digits (n div 10)) \<or> c = digit_char (n mod 10)"
      using "1.prems" False by (subst (asm) digits.simps) auto
    then show ?thesis
    proof
      assume "c \<in> set (digits (n div 10))"
      then show ?thesis using "1.IH" [OF False] by blast
    next
      assume "c = digit_char (n mod 10)"
      moreover have "n mod 10 < 10" by simp
      ultimately show ?thesis by blast
    qed
  qed
qed

lemma digits_is_digit: "c \<in> set (digits n) \<Longrightarrow> is_digit c"
  using digits_all digit_char_props(1) by blast

lemma filter_digits: "filter is_digit (digits n) = digits n"
  by (simp add: digits_is_digit)

lemma dec_value_snoc:
  "is_digit c \<Longrightarrow> dec_value (xs @ [c]) = 10 * dec_value xs + digit_val c"
  by (simp add: dec_value_def)

lemma dec_value_digits: "dec_value (digits n) = n"
proof (induction n rule: digits.induct)
  case (1 n)
  show ?case
  proof (cases "n < 10")
    case True
    then show ?thesis
      by (subst digits.simps) (simp add: dec_value_def digit_char_props)
  next
    case False
    have m: "n mod 10 < 10" by simp
    have "dec_value (digits n) = dec_value (digits (n div 10) @ [digit_char (n mod 10)])"
      using False by (subst digits.simps) simp
    also have "\<dots> = 10 * dec_value (digits (n div 10)) + digit_val (digit_char (n mod 10))"
      by (rule dec_value_snoc) (rule digit_char_props(1) [OF m])
    also have "\<dots> = 10 * (n div 10) + n mod 10"
      using "1.IH" [OF False] digit_char_props(2) [OF m] by simp
    finally show ?thesis by simp
  qed
qed

lemma grouped_digits_all:
  "xs \<noteq> [] \<Longrightarrow> (\<And>c. c \<in> set xs \<Longrightarrow> is_digit c \<and> c \<noteq> CHR ''_'') \<Longrightarrow> grouped_digits xs"
  by (induction xs rule: grouped_digits.induct) auto

lemma grouped_digits_digits: "grouped_digits (digits n)"
proof (rule grouped_digits_all [OF digits_not_Nil])
  fix c assume "c \<in> set (digits n)"
  then obtain d where "d < 10" "c = digit_char d"
    using digits_all by blast
  then show "is_digit c \<and> c \<noteq> CHR ''_''"
    using digit_char_props by simp
qed

lemma hd_digits: "\<exists>d<10. hd (digits n) = digit_char d"
  using digits_all [of "hd (digits n)" n] digits_not_Nil [of n] by simp

lemma last_digits: "\<exists>d<10. last (digits n) = digit_char d"
  using digits_all [of "last (digits n)" n] digits_not_Nil [of n] by simp

lemma py_strip_id:
  assumes "xs \<noteq> []" "\<not> is_space (hd xs)" "\<not> is_space (last xs)"
  shows "py_strip xs = xs"
proof -
  have a: "dropWhile is_space xs = xs"
    using assms(1,2) by (cases xs) simp_all
  have "rev xs \<noteq> []" "\<not> is_space (hd (rev xs))"
    using assms(1,3) by (simp_all add: hd_rev)
  then have "dropWhile is_space (rev xs) = rev xs"
    by (cases "rev xs") simp_all
  then show ?thesis
    by (simp add: py_strip_def a)
qed

lemma py_strip_digits: "py_strip (digits n) = digits n"
  using hd_digits [of n] last_digits [of n] digits_not_Nil [of n]
  by (auto intro!: py_strip_id simp add: digit_char_props)

lemma py_strip_minus_digits: "py_strip (CHR ''-'' # digits n) = CHR ''-'' # digits n"
proof (rule py_strip_id)
  show "\<not> is_space (hd (CHR ''-'' # digits n))" by (simp add: is_space_def)
  show "\<not> is_space (last (CHR ''-'' # digits n))"
    using last_digits [of n] digits_not_Nil [of n] by (auto simp add: digit_char_props)
qed simp

lemma py_int_digits: "py_int (digits n) = Some (int n)"
proof -
  obtain c r where cr: "digits n = c # r"
    using digits_not_Nil [of n] by (cases "digits n") auto
  obtain d where "d < 10" "c = digit_char d"
    using hd_digits [of n] cr by auto
  then have "c \<noteq> CHR ''-''" "c \<noteq> CHR ''+''"
    using digit_char_props by simp_all
  moreover have "py_strip (c # r) = c # r"
    using py_strip_digits [of n] by (simp add: cr)
  moreover have "grouped_digits (c # r)" "dec_value (c # r) = n"
    using grouped_digits_digits [of n] dec_value_digits [of n] by (simp_all add: cr)
  ultimately show ?thesis
    by (simp add: py_int_def cr Let_def)
qed

lemma py_int_str_int: "py_int (str_int k) = Some k"
proof (cases "k < 0")
  case True
  then show ?thesis
    using grouped_digits_digits [of "nat (- k)"] dec_value_digits [of "nat (- k)"]
    by (simp add: str_int_def py_int_def py_strip_minus_digits)
next
  case False
  then show ?thesis
    by (simp add: str_int_def py_int_digits)
qed

lemma find_from_first:
  "c \<notin> set xs \<Longrightarrow> find_from c (xs @ c # ys) i = int (i + length xs)"
  by (induction xs arbitrary: i) auto

lemma find_from_absent: "c \<notin> set xs \<Longrightarrow> find_from c xs i = - 1"
  by (induction xs arbitrary: i) auto

text \<open>
  Where the file name has no plus sign and is not empty, the tag that \<^verbatim>\<open>runlargecode\<close>
  builds is taken apart again by \<^verbatim>\<open>correctfilenameandlineno\<close>.
\<close>

lemma origin_tag_roundtrip:
  assumes "fname \<noteq> []" and "CHR ''+'' \<notin> set fname"
  shows "correctfilenameandlineno (origin_tag fname lineno) l = (fname, l + lineno)"
proof (cases "lineno = 0")
  case True
  then show ?thesis
    using assms(2) by (simp add: origin_tag_def correctfilenameandlineno_def py_find_def find_from_absent)
next
  case False
  have j: "py_find (fname @ CHR ''+'' # str_int lineno) CHR ''+'' = int (length fname)"
    using find_from_first [OF assms(2), of "str_int lineno" 0] by (simp add: py_find_def)
  have pos: "0 < int (length fname)"
    using assms(1) by simp
  have n: "nat (int (length fname) + 1) = Suc (length fname)"
    by simp
  have "correctfilenameandlineno (fname @ CHR ''+'' # str_int lineno) l = (fname, l + lineno)"
    unfolding correctfilenameandlineno_def j Let_def n
    using pos by (simp add: py_int_str_int)
  then show ?thesis
    using False by (simp add: origin_tag_def)
qed

section \<open>The claims\<close>

text \<open>
  Claim C1.  The claim is that the rewriter splits an origin tag on its last plus sign,
  so that a file name containing a plus sign comes back with the offset added to the
  line.  \<^verbatim>\<open>correctfilenameandlineno\<close> uses \<^verbatim>\<open>fname.find('+')\<close>, the first plus sign: for
  the file \<^verbatim>\<open>a+b.py\<close> submitted at offset 7, \<^verbatim>\<open>runlargecode\<close> builds the tag
  \<^verbatim>\<open>a+b.py+7\<close>, \<^verbatim>\<open>int('b.py+7')\<close> raises \<^verbatim>\<open>ValueError\<close>, and the tag and the line 22 come
  back unchanged instead of \<^verbatim>\<open>a+b.py\<close> and 29.  (Lemma \<open>origin_tag_roundtrip\<close> is
  the case without a plus sign in the name, where the round trip holds.)
\<close>

theorem tag_split_at_first_plus:
  "origin_tag ''a+b.py'' 7 = ''a+b.py+7''
   \<and> py_find ''a+b.py+7'' CHR ''+'' = 1
   \<and> py_int ''b.py+7'' = None
   \<and> correctfilenameandlineno (origin_tag ''a+b.py'' 7) 22 = (''a+b.py+7'', 22)
   \<and> correctfilenameandlineno (origin_tag ''a+b.py'' 7) 22 \<noteq> (''a+b.py'', 22 + 7)"
  by code_simp

text \<open>
  Claim C2.  The claim is that a traceback shows, for each frame of a stored unit, the
  line of the source stored for that unit, whatever happens to the editor file or the
  registry later.  Two runs of the code say otherwise.  The block \<^verbatim>\<open>a=1\nb=1/0\n\<close> of
  \<^verbatim>\<open>ex.py\<close> at offset 10 is stored, and line 2 of the stored text is \<^verbatim>\<open>b=1/0\<close>; its
  traceback has one row, the list of frames is empty after \<^verbatim>\<open>frames.pop(0)\<close>, and the
  row keeps the text of \<^verbatim>\<open>linecache\<close> (none here, there is no file \<^verbatim>\<open>ex.py+10\<close>).  And
  when the last traceback of a block of \<^verbatim>\<open>a.py\<close> is shown after a block of \<^verbatim>\<open>b.py\<close> was
  stored, the row of \<^verbatim>\<open>a.py\<close> shows line 1 of the source of \<^verbatim>\<open>b.py\<close>.
\<close>

theorem traceback_text_not_from_stored_source:
  "getSource (codeCollection (state_of (runlargecode failing_ext demo_state block_msg)))
      (Code 1 ''ex.py+10'' ''<module>'') = ''a=1'' @ [NL] @ ''b=1/0'' @ [NL, NL]
   \<and> py_index (splitlines (''a=1'' @ [NL] @ ''b=1/0'' @ [NL, NL])) (2 - 1) = Some ''b=1/0''
   \<and> written (log (state_of (runlargecode failing_ext demo_state block_msg)))
       = [''Traceback (most recent call last):'' @ [NL],
          ''  File '' @ DQ @ ''ex.py'' @ DQ @ '', line 12, in <module>'' @ [NL],
          ''ZeroDivisionError: division by zero'' @ [NL]]
   \<and> py_index (splitlines (''compute()'' @ [NL, NL])) (1 - 1) = Some ''compute()''
   \<and> getSource (codeCollection later_state) (Code 1 ''a.py'' ''<module>'')
       = ''print(1)'' @ [NL, NL]
   \<and> written (log (showtraceback demo_ext later_state True None))
       = [''Traceback (most recent call last):'' @ [NL],
          ''  File '' @ DQ @ ''a.py'' @ DQ @ '', line 1, in <module>'' @ [NL]
            @ ''    print(1)'' @ [NL],
          ''  File '' @ DQ @ ''lib.py'' @ DQ @ '', line 40, in compute'' @ [NL],
          ''ZeroDivisionError: division by zero'' @ [NL]]"
  by code_simp

text \<open>
  Claim C4.  The claim is that an encoding cookie in the first two lines is always
  rewritten, also when the source is a single line or has no final newline.  The loop
  of \<^verbatim>\<open>compilecode\<close> runs over all parts of \<^verbatim>\<open>source.split('\n', 2)\<close> but the last: the
  one-line source \<^verbatim>\<open># -*- coding: utf-8 -*-\<close>, as \<^verbatim>\<open>pushline\<close> passes it, reaches the
  compiler with its cookie, and so does a cookie on a second line that ends the source.
  With a newline after it the same line is rewritten.
\<close>

theorem single_line_cookie_not_rewritten:
  "compilecode E ''# -*- coding: utf-8 -*-'' fn mode
     = compile_cmd E ''# -*- coding: utf-8 -*-'' fn mode
   \<and> compilecode_source (''if 1:'' @ [NL] @ ''# coding: utf-8'')
       = ''if 1:'' @ [NL] @ ''# coding: utf-8''
   \<and> compilecode_source (''# -*- coding: utf-8 -*-'' @ [NL])
       = ''# -*- coding is utf-8 -*-'' @ [NL]"
proof -
  have "compilecode_source ''# -*- coding: utf-8 -*-'' = ''# -*- coding: utf-8 -*-''"
    by code_simp
  moreover have "compilecode_source (''if 1:'' @ [NL] @ ''# coding: utf-8'')
       = ''if 1:'' @ [NL] @ ''# coding: utf-8''"
    by code_simp
  moreover have "compilecode_source (''# -*- coding: utf-8 -*-'' @ [NL])
       = ''# -*- coding is utf-8 -*-'' @ [NL]"
    by code_simp
  ultimately show ?thesis
    by (simp add: compilecode_def)
qed

text \<open>
  Claim C5.  After a \<^verbatim>\<open>pushline\<close> call that returns, the buffer is empty exactly when the
  call returned false, which is exactly when the compile of the joined buffer did not
  come back incomplete; when it returned true the buffer is the previous buffer with the
  new line appended.  When the call raises, the buffer is empty as well.  And when
  \<^verbatim>\<open>process_commands\<close> catches a \<^verbatim>\<open>KeyboardInterrupt\<close> that left the tick, it returns with
  the buffer emptied and \<^verbatim>\<open>more\<close> reset.
\<close>

theorem pushline_buffer_discipline:
  "(case pushline E s ln of
      Return m s' \<Rightarrow>
        (buffer s' = [] \<longleftrightarrow> \<not> m)
        \<and> (m \<longleftrightarrow> compilecode E (join_nl (buffer s @ [ln])) (filename s) ''single'' = Incomplete)
        \<and> buffer s' = (if m then buffer s @ [ln] else [])
    | Raise e s' \<Rightarrow> buffer s' = [])
   \<and> (inner_process_commands E s t = Raise e1 s1 \<and> etype e1 = KeyboardInterrupt \<longrightarrow>
        process_commands E s t = Return () (interrupted (NL # ''KeyboardInterrupt'' @ [NL]) s1)
        \<and> buffer (interrupted (NL # ''KeyboardInterrupt'' @ [NL]) s1) = []
        \<and> \<not> more_flag (interrupted (NL # ''KeyboardInterrupt'' @ [NL]) s1))"
proof -
  let ?r = "runlines E (resetbuffer s) (join_nl (buffer s @ [ln])) (filename s) ''single''"
  have empty: "buffer (state_of ?r) = []"
    by simp
  have push: "(case pushline E s ln of
      Return m s' \<Rightarrow>
        (buffer s' = [] \<longleftrightarrow> \<not> m)
        \<and> (m \<longleftrightarrow> compilecode E (join_nl (buffer s @ [ln])) (filename s) ''single'' = Incomplete)
        \<and> buffer s' = (if m then buffer s @ [ln] else [])
    | Raise e s' \<Rightarrow> buffer s' = [])"
  proof (cases ?r)
    case (Return m s2)
    have "m = (compilecode E (join_nl (buffer s @ [ln])) (filename s) ''single'' = Incomplete)"
      using runlines_more [OF Return] .
    moreover have "buffer s2 = []"
      using empty Return by simp
    ultimately show ?thesis
      by (simp add: pushline_unfold Return)
  next
    case (Raise e s2)
    then show ?thesis
      using empty by (simp add: pushline_unfold)
  qed
  have kbd: "inner_process_commands E s t = Raise e1 s1 \<and> etype e1 = KeyboardInterrupt \<longrightarrow>
        process_commands E s t = Return () (interrupted (NL # ''KeyboardInterrupt'' @ [NL]) s1)"
    by (simp add: process_commands_def)
  show ?thesis
    using push kbd by simp
qed

theorem pushline_buffer_discipline_witness:
  "raised (inner_process_commands interrupting_ext waiting_state (demo_tick (CtrlCommand ''x'')))
     = Some keyboard_interrupt
   \<and> buffer waiting_state = [''def f():'']
   \<and> raised (process_commands interrupting_ext waiting_state (demo_tick (CtrlCommand ''x''))) = None
   \<and> buffer (state_of (process_commands interrupting_ext waiting_state
                          (demo_tick (CtrlCommand ''x'')))) = []
   \<and> pushline incomplete_ext waiting_state ''    return 42''
       = Return True (waiting_state\<lparr>buffer := [''def f():'', ''    return 42'']\<rparr>)"
proof -
  let ?t = "demo_tick (CtrlCommand ''x'')"
  let ?r = "inner_process_commands interrupting_ext waiting_state ?t"
  have r: "raised ?r = Some keyboard_interrupt"
    by code_simp
  have k: "etype keyboard_interrupt = KeyboardInterrupt"
    by (simp add: keyboard_interrupt_def)
  have b: "buffer waiting_state = [''def f():'']"
    by (simp add: waiting_state_def)
  have "process_commands interrupting_ext waiting_state ?t
          = Return () (interrupted (NL # ''KeyboardInterrupt'' @ [NL]) (state_of ?r))"
    using pushline_buffer_discipline
            [of interrupting_ext waiting_state "''x''" ?t keyboard_interrupt "state_of ?r"]
          raised_Some [OF r] k
    by simp
  then have p: "raised (process_commands interrupting_ext waiting_state ?t) = None"
    and q: "buffer (state_of (process_commands interrupting_ext waiting_state ?t)) = []"
    by simp_all
  have c: "compilecode incomplete_ext (join_nl (buffer waiting_state @ [''    return 42'']))
             (filename waiting_state) ''single'' = Incomplete"
    by (simp add: compilecode_def incomplete_ext_def demo_ext_def)
  have "runlines incomplete_ext (resetbuffer waiting_state)
          (join_nl (buffer waiting_state @ [''    return 42''])) (filename waiting_state) ''single''
        = Return True (resetbuffer waiting_state)"
    using c by (rule runlines_incomplete)
  then have u: "pushline incomplete_ext waiting_state ''    return 42''
       = Return True (waiting_state\<lparr>buffer := [''def f():'', ''    return 42'']\<rparr>)"
    by (simp add: pushline_unfold resetbuffer_def waiting_state_def)
  show ?thesis
    using r b p q u by simp
qed

text \<open>
  Claim C6.  The claim is that \<^verbatim>\<open>execcode\<close> catches every exception but \<^verbatim>\<open>SystemExit\<close>.
  Its handlers are \<^verbatim>\<open>bdb.BdbQuit\<close>, \<^verbatim>\<open>Exception\<close> and \<^verbatim>\<open>KeyboardInterrupt\<close>; a
  \<^verbatim>\<open>GeneratorExit\<close> raised by the unit is none of them and is not a \<^verbatim>\<open>SystemExit\<close>: it
  leaves \<^verbatim>\<open>execcode\<close> with nothing written, and it leaves \<^verbatim>\<open>process_commands\<close> too.
  (Lemma \<open>execcode_raised\<close> says which exceptions leave \<^verbatim>\<open>execcode\<close> in general.)
\<close>

theorem execcode_lets_generator_exit_through:
  "etype generator_exit \<noteq> SystemExit
   \<and> raised (execcode generator_exit_ext demo_state (Code 1 ''<console>'' ''<module>''))
       = Some generator_exit
   \<and> written (log (state_of (execcode generator_exit_ext demo_state
                                (Code 1 ''<console>'' ''<module>'')))) = []
   \<and> raised (process_commands generator_exit_ext demo_state
                (demo_tick (CtrlCommand ''raise GeneratorExit''))) = Some generator_exit"
  by code_simp

text \<open>
  Claim C7.  The claim is that in debug mode neither \<^verbatim>\<open>showtraceback\<close> nor
  \<^verbatim>\<open>showsyntaxerror\<close> changes \<^verbatim>\<open>sys.last_type\<close>, \<^verbatim>\<open>sys.last_value\<close> and
  \<^verbatim>\<open>sys.last_traceback\<close>.  \<^verbatim>\<open>showtraceback\<close> has the guard (lemma
  \<open>showtraceback_keeps_last_in_debug\<close>); \<^verbatim>\<open>showsyntaxerror\<close> assigns \<^verbatim>\<open>sys.last_value\<close>
  without one.  Under Python 2, with the kernel paused in a frame and the last
  exception a \<^verbatim>\<open>ZeroDivisionError\<close>, the line \<^verbatim>\<open>x = = 1\<close> replaces \<^verbatim>\<open>sys.last_value\<close> by
  the syntax error and leaves \<^verbatim>\<open>sys.last_type\<close> as it was.
\<close>

theorem showsyntaxerror_stores_in_debug_mode:
  "dbFrames debug_state \<noteq> []
   \<and> PYTHON_VERSION invalid_py2_ext = 2
   \<and> last_value debug_state = Some zero_division
   \<and> last_value (state_of (pushline invalid_py2_ext debug_state ''x = = 1''))
       = Some (Exc SyntaxError (SyntaxArgs ''invalid syntax'' ''<console>'' 1 5 ''x = = 1''))
   \<and> last_type (state_of (pushline invalid_py2_ext debug_state ''x = = 1''))
       = Some (OtherException ''ZeroDivisionError'')
   \<and> last_value (showsyntaxerror invalid_py2_ext debug_state ''<console>'' (Some syntax_error))
       = Some (Exc SyntaxError (SyntaxArgs ''invalid syntax'' ''<console>'' 1 5 ''x = = 1''))"
  by code_simp

text \<open>
  Claim C8.  The claim is that a \<^verbatim>\<open>TypeError\<close> leaving the tick is taken for a keyboard
  interrupt only under the wx backend, and that under any other backend the handler of
  the REPL loop does not swallow it.  The clause \<^verbatim>\<open>except TypeError\<close> catches for every
  backend, and only its body is guarded by \<^verbatim>\<open>self.guiName == 'WX'\<close>; there is no
  \<^verbatim>\<open>raise\<close> for the other case.  With \<^verbatim>\<open>self.guiName\<close> equal to \<^verbatim>\<open>TK\<close>, a \<^verbatim>\<open>TypeError\<close> from
  the magician does not leave \<^verbatim>\<open>process_commands\<close>: nothing is written, the buffer and
  \<^verbatim>\<open>more\<close> stay as they were.  A \<^verbatim>\<open>ValueError\<close> at the same place does leave it.
  (The name tested is the one the front-end asked for, \<^verbatim>\<open>startup_info['gui'].upper()\<close>.
  Lemma \<open>process_commands_typeerror\<close> is the handler in general.)
\<close>

theorem typeerror_swallowed_without_wx:
  "guiName tk_state = ''TK''
   \<and> raised (inner_process_commands type_error_ext tk_state (demo_tick (CtrlCommand ''x'')))
       = Some type_error
   \<and> raised (process_commands type_error_ext tk_state (demo_tick (CtrlCommand ''x''))) = None
   \<and> written (log (state_of (process_commands type_error_ext tk_state
                                (demo_tick (CtrlCommand ''x''))))) = []
   \<and> buffer (state_of (process_commands type_error_ext tk_state
                          (demo_tick (CtrlCommand ''x'')))) = [''def f():'']
   \<and> more_flag (state_of (process_commands type_error_ext tk_state
                             (demo_tick (CtrlCommand ''x''))))
   \<and> raised (process_commands value_error_ext tk_state (demo_tick (CtrlCommand ''x'')))
       = Some value_error"
  by code_simp

text \<open>
  Claim C9.  The claim is that \<^verbatim>\<open>run\<close> raises the stored exit intent whenever there is
  one, for every way the event loop ends.  \<^verbatim>\<open>run\<close> catches \<^verbatim>\<open>SystemExit\<close> only: when a
  tick has stored \<^verbatim>\<open>SystemExit(7)\<close> and the event loop is then left by a \<^verbatim>\<open>RuntimeError\<close>,
  \<^verbatim>\<open>run\<close> raises the \<^verbatim>\<open>RuntimeError\<close> and the exit intent is never looked at.  (Lemmas
  \<open>run_always_raises\<close> and \<open>run_exit_precedence\<close> are the part of the claim that
  holds.)
\<close>

theorem run_bypasses_exit_intent:
  "gui_run crashing_loop_ext (demo_state\<lparr>exitException := None\<rparr>)
     = (demo_state\<lparr>exitException := Some system_exit_7\<rparr>, Some runtime_error)
   \<and> etype runtime_error \<noteq> SystemExit
   \<and> raised (run crashing_loop_ext demo_state) = Some runtime_error
   \<and> exitException (state_of (run crashing_loop_ext demo_state)) = Some system_exit_7"
  by (simp add: run_def crashing_loop_ext_def demo_ext_def runtime_error_def)




end
